theory Spec2Isabelle
  imports Main
begin

text \<open>
  The repository is one Jupyter notebook. Its code cells register a Hugging Face model with
  Amazon SageMaker, create an endpoint configuration and an asynchronous endpoint, wait for
  the endpoint, invoke it 5000 times, and attempt a clean-up. The notebook defines no
  function: the program is the sequence of its cells, and what it does is the sequence of
  requests it sends to the service. The theory models the cells as state transformers over
  the notebook's variables, a trace of the requests sent and the world of the service, runs
  them in the order of the document, and proves what the requests of a run are. The service
  and the SDK's check of the arguments of a request are parameters of every cell.
\<close>

section \<open>Python values and exceptions\<close>

text \<open>
  The notebook passes keyword arguments (strings, integers, lists and dictionaries) to the
  clients of the AWS SDK and reads dictionaries back. A dictionary is an association list,
  in the order of the source text.
\<close>

datatype pyval =
    PNone
  | PStr string
  | PInt int
  | PList "pyval list"
  | PDict "(string \<times> pyval) list"

text \<open>
  The exceptions that can end a cell: a failed attribute lookup on a client, a failed
  subscript, and the errors the SDK raises when the arguments of a request fail its check
  before sending (\<open>ParamValidationError\<close>), when the service rejects a request
  (\<open>ClientError\<close>) or when a waiter gives up (\<open>WaiterError\<close>).
\<close>

datatype exn =
    AttributeError string
  | KeyError string
  | TypeError
  | ParamValidationError string
  | ClientError string
  | WaiterError string

text \<open>\<open>d[k]\<close>: a missing key raises KeyError, a value that is no dictionary TypeError.\<close>

fun getitem :: "pyval \<Rightarrow> string \<Rightarrow> exn + pyval" where
  "getitem (PDict kvs) k = (case map_of kvs k of None \<Rightarrow> Inl (KeyError k) | Some v \<Rightarrow> Inr v)"
| "getitem _ k = Inl TypeError"

section \<open>Clients, requests and the remote service\<close>

text \<open>
  \<open>sagemaker_client = boto_session.client("sagemaker")\<close> and
  \<open>sm_runtime = boto_session.client("sagemaker-runtime")\<close>. A client is an object of a
  class generated by the SDK, with one method per operation of its service. The methods
  listed are the ones the notebook calls and whose cells have a recorded result; the
  recorded traceback of the last cell shows that \<open>deregister_scalable_target\<close> is no
  attribute of the \<open>SageMaker\<close> client.
\<close>

record client =
  class_name :: string
  service_name :: string
  methods :: "string list"

definition sagemaker_client :: client where
  "sagemaker_client =
     \<lparr>class_name = ''SageMaker'', service_name = ''sagemaker'',
      methods = [''create_model'', ''create_endpoint_config'', ''create_endpoint'',
                 ''get_waiter'', ''describe_endpoint'']\<rparr>"

definition sm_runtime :: client where
  "sm_runtime =
     \<lparr>class_name = ''SageMakerRuntime'', service_name = ''sagemaker-runtime'',
      methods = [''invoke_endpoint_async'']\<rparr>"

definition quoted :: "string \<Rightarrow> string" where
  "quoted s = CHR 0x27 # s @ [CHR 0x27]"

text \<open>
  The attribute lookup of a client, as the traceback in the notebook shows it
  (botocore/client.py, \<open>__getattr__\<close>):
  \<^verbatim>\<open>raise AttributeError(f"'{self.__class__.__name__}' object has no attribute '{item}'")\<close>
\<close>

definition getattr_client :: "client \<Rightarrow> string \<Rightarrow> exn + string" where
  "getattr_client c item =
     (if item \<in> set (methods c) then Inr item
      else Inl (AttributeError
             (quoted (class_name c) @ '' object has no attribute '' @ quoted item)))"

text \<open>
  A request that leaves the process: who receives it (a client of a service, or a waiter
  obtained from a client), the operation, and the keyword arguments.
\<close>

datatype receiver = Client string | Waiter string string

record call =
  receiver :: receiver
  operation :: string
  kwargs :: "(string \<times> pyval) list"

text \<open>
  The service is not part of the repository. It is a parameter: any function from a request
  and the state of the world to an answer (an error message, or the response) and the new
  state of the world.
\<close>

type_synonym 'w remote = "call \<Rightarrow> 'w \<Rightarrow> (string + pyval) \<times> 'w"

text \<open>
  Before a client sends a request, the SDK checks the keyword arguments against the shapes
  of the operation (required arguments, types, minimum lengths) and raises
  ParamValidationError, sending nothing, when the check fails. The shapes are not part of
  the repository either. The check is a parameter too: any function from a request to
  \<open>None\<close> when the request passes, or to the message of the error.
\<close>

type_synonym validation = "call \<Rightarrow> string option"

section \<open>The state of a run\<close>

text \<open>
  The global variables of the notebook. \<open>region\<close>, \<open>role\<close>, \<open>s3_bucket\<close>, \<open>s3_prefix\<close> and
  \<open>ecr_image\<close> are set by the cells before the first request (session set-up, upload of the
  model archive, retrieval of the container image); the run modelled here starts after them
  and takes their values from the initial state. The loop variable \<open>i\<close> is \<open>loop_i\<close>.
\<close>

record globals =
  region :: string
  role :: string
  s3_bucket :: string
  s3_prefix :: string
  ecr_image :: string
  MODEL_DATA_URL :: string
  model_name :: string
  model_arn :: pyval
  endpoint_config_name :: string
  endpoint_config_arn :: pyval
  endpoint_name :: string
  endpoint_arn :: pyval
  resp :: pyval
  input_s3_location :: string
  loop_i :: int
  response :: pyval

text \<open>
  A state holds the variables, the world of the service, the values the cells have displayed
  (the value of a cell's last expression), and the requests sent so far, oldest first, each
  with the answer it got.
\<close>

record 'w state =
  vars :: globals
  world :: 'w
  displayed :: "pyval list"
  trace :: "(call \<times> (string + pyval)) list"

datatype 'w outcome = Done "'w state" | Raised exn "'w state"

fun final :: "'w outcome \<Rightarrow> 'w state" where
  "final (Done s) = s"
| "final (Raised e s) = s"

text \<open>Statements and cells run in order; the first exception ends the run.\<close>

fun run_cells :: "('w state \<Rightarrow> 'w outcome) list \<Rightarrow> 'w state \<Rightarrow> 'w outcome" where
  "run_cells [] s = Done s"
| "run_cells (c # cs) s =
     (case c s of Done s' \<Rightarrow> run_cells cs s' | Raised e s' \<Rightarrow> Raised e s')"

text \<open>Sending a request: the service answers, the world moves on, the trace grows.\<close>

definition send :: "'w remote \<Rightarrow> call \<Rightarrow> 'w state \<Rightarrow> (string + pyval) \<times> 'w state" where
  "send R rq s =
     (case R rq (world s) of
        (a, w') \<Rightarrow> (a, s\<lparr>world := w', trace := trace s @ [(rq, a)]\<rparr>))"

text \<open>
  \<open>client.item(**kw)\<close>: the attribute lookup comes first, then the check of the arguments;
  nothing is sent when either fails. The continuation \<open>k\<close> says what the statement does
  with the response.
\<close>

definition client_call ::
  "validation \<Rightarrow> 'w remote \<Rightarrow> client \<Rightarrow> string \<Rightarrow>
   (globals \<Rightarrow> (string \<times> pyval) list) \<Rightarrow>
   (pyval \<Rightarrow> 'w state \<Rightarrow> 'w state) \<Rightarrow> 'w state \<Rightarrow> 'w outcome" where
  "client_call V R c item kw k s =
     (case getattr_client c item of
        Inl e \<Rightarrow> Raised e s
      | Inr m \<Rightarrow>
          (case V \<lparr>receiver = Client (service_name c), operation = m,
                    kwargs = kw (vars s)\<rparr> of
             Some msg \<Rightarrow> Raised (ParamValidationError msg) s
           | None \<Rightarrow>
               (case send R \<lparr>receiver = Client (service_name c), operation = m,
                             kwargs = kw (vars s)\<rparr> s of
                  (Inl msg, s') \<Rightarrow> Raised (ClientError msg) s'
                | (Inr v, s') \<Rightarrow> Done (k v s'))))"

text \<open>
  \<open>waiter = client.get_waiter(name); waiter.wait(**kw)\<close>: the waiter polls the service until
  the awaited condition holds, or raises WaiterError. From the notebook this is one blocking
  request; its return value is not used, and the waiter object is kept in no variable that
  a later cell reads. The recorded run waited on \<open>endpoint_in_service\<close>, so looking the
  waiter up by that name does not fail; only the lookup of \<open>get_waiter\<close> on the client is
  modelled. The waiter polls through the client, so the check of the arguments comes before
  anything is sent here as well.
\<close>

definition waiter_wait ::
  "validation \<Rightarrow> 'w remote \<Rightarrow> client \<Rightarrow> string \<Rightarrow>
   (globals \<Rightarrow> (string \<times> pyval) list) \<Rightarrow> 'w state \<Rightarrow> 'w outcome" where
  "waiter_wait V R c name kw s =
     (case getattr_client c ''get_waiter'' of
        Inl e \<Rightarrow> Raised e s
      | Inr m \<Rightarrow>
          (case V \<lparr>receiver = Waiter (service_name c) name, operation = ''wait'',
                    kwargs = kw (vars s)\<rparr> of
             Some msg \<Rightarrow> Raised (ParamValidationError msg) s
           | None \<Rightarrow>
               (case send R \<lparr>receiver = Waiter (service_name c) name, operation = ''wait'',
                             kwargs = kw (vars s)\<rparr> s of
                  (Inl msg, s') \<Rightarrow> Raised (WaiterError msg) s'
                | (Inr v, s') \<Rightarrow> Done s')))"

text \<open>\<open>x[key]\<close> for a variable \<open>x\<close>; \<open>k\<close> says what the statement does with the value.\<close>

definition subscript ::
  "(globals \<Rightarrow> pyval) \<Rightarrow> string \<Rightarrow> (pyval \<Rightarrow> 'w state \<Rightarrow> 'w state) \<Rightarrow>
   'w state \<Rightarrow> 'w outcome" where
  "subscript x key k s =
     (case getitem (x (vars s)) key of Inl e \<Rightarrow> Raised e s | Inr v \<Rightarrow> Done (k v s))"

text \<open>A plain assignment \<open>x = e\<close>.\<close>

definition assign :: "(globals \<Rightarrow> globals) \<Rightarrow> 'w state \<Rightarrow> 'w outcome" where
  "assign f s = Done (s\<lparr>vars := f (vars s)\<rparr>)"

text \<open>What a statement does with a value: store it, display it, or drop it.\<close>

definition store :: "(pyval \<Rightarrow> globals \<Rightarrow> globals) \<Rightarrow> pyval \<Rightarrow> 'w state \<Rightarrow> 'w state" where
  "store f v s = s\<lparr>vars := f v (vars s)\<rparr>"

definition display :: "pyval \<Rightarrow> 'w state \<Rightarrow> 'w state" where
  "display v s = s\<lparr>displayed := displayed s @ [v]\<rparr>"

definition discard :: "pyval \<Rightarrow> 'w state \<Rightarrow> 'w state" where
  "discard v s = s"

section \<open>The cells of the notebook\<close>

text \<open>\<^verbatim>\<open>MODEL_DATA_URL = f"s3://{s3_bucket}/{s3_prefix}/sentimentanalysis.tar.gz"\<close>\<close>

definition set_model_data_url :: "'w state \<Rightarrow> 'w outcome" where
  "set_model_data_url =
     assign (\<lambda>g. g\<lparr>MODEL_DATA_URL :=
       ''s3://'' @ s3_bucket g @ ''/'' @ s3_prefix g @ ''/sentimentanalysis.tar.gz''\<rparr>)"

text \<open>\<^verbatim>\<open>model_name = f"beto-sentiment-analysis-async-1005"\<close>\<close>

definition set_model_name :: "'w state \<Rightarrow> 'w outcome" where
  "set_model_name = assign (\<lambda>g. g\<lparr>model_name := ''beto-sentiment-analysis-async-1005''\<rparr>)"

text \<open>
  \<^verbatim>\<open>response = sagemaker_client.create_model(ModelName=model_name, ExecutionRoleArn=role,
      PrimaryContainer={"Image": ecr_image, "ModelDataUrl": MODEL_DATA_URL,
          "Environment": {"HF_MODEL_ID": "finiteautomata/beto-sentiment-analysis",
              "HF_TASK": "text-classification", "SAGEMAKER_CONTAINER_LOG_LEVEL": "20",
              "SAGEMAKER_REGION": region}})
  model_arn = response["ModelArn"]\<close>
  The lines that only log or print are left out, here and below.
\<close>

definition create_model_kwargs :: "globals \<Rightarrow> (string \<times> pyval) list" where
  "create_model_kwargs g =
     [(''ModelName'', PStr (model_name g)),
      (''ExecutionRoleArn'', PStr (role g)),
      (''PrimaryContainer'', PDict
         [(''Image'', PStr (ecr_image g)),
          (''ModelDataUrl'', PStr (MODEL_DATA_URL g)),
          (''Environment'', PDict
             [(''HF_MODEL_ID'', PStr ''finiteautomata/beto-sentiment-analysis''),
              (''HF_TASK'', PStr ''text-classification''),
              (''SAGEMAKER_CONTAINER_LOG_LEVEL'', PStr ''20''),
              (''SAGEMAKER_REGION'', PStr (region g))])])]"

definition create_model_cell :: "validation \<Rightarrow> 'w remote \<Rightarrow> 'w state \<Rightarrow> 'w outcome" where
  "create_model_cell V R =
     run_cells
       [client_call V R sagemaker_client ''create_model'' create_model_kwargs
          (store (\<lambda>v g. g\<lparr>response := v\<rparr>)),
        subscript response ''ModelArn'' (store (\<lambda>v g. g\<lparr>model_arn := v\<rparr>))]"

text \<open>\<^verbatim>\<open>endpoint_config_name = model_name\<close>\<close>

definition set_endpoint_config_name :: "'w state \<Rightarrow> 'w outcome" where
  "set_endpoint_config_name = assign (\<lambda>g. g\<lparr>endpoint_config_name := model_name g\<rparr>)"

text \<open>
  \<^verbatim>\<open>response = sagemaker_client.create_endpoint_config(
      EndpointConfigName=endpoint_config_name,
      ProductionVariants=[{"VariantName": "variant-1", "ModelName": model_name,
          "InstanceType": "ml.m5.xlarge", "InitialInstanceCount": 1}],
      AsyncInferenceConfig={
          "ClientConfig": {"MaxConcurrentInvocationsPerInstance": 10},
          "OutputConfig": {"S3OutputPath": f"s3://{s3_bucket}/{s3_prefix}/output"}})
  endpoint_config_arn = response["EndpointConfigArn"]\<close>
\<close>

definition create_endpoint_config_kwargs :: "globals \<Rightarrow> (string \<times> pyval) list" where
  "create_endpoint_config_kwargs g =
     [(''EndpointConfigName'', PStr (endpoint_config_name g)),
      (''ProductionVariants'', PList
         [PDict [(''VariantName'', PStr ''variant-1''),
                 (''ModelName'', PStr (model_name g)),
                 (''InstanceType'', PStr ''ml.m5.xlarge''),
                 (''InitialInstanceCount'', PInt 1)]]),
      (''AsyncInferenceConfig'', PDict
         [(''ClientConfig'', PDict [(''MaxConcurrentInvocationsPerInstance'', PInt 10)]),
          (''OutputConfig'', PDict
             [(''S3OutputPath'',
               PStr (''s3://'' @ s3_bucket g @ ''/'' @ s3_prefix g @ ''/output''))])])]"

definition create_endpoint_config_cell :: "validation \<Rightarrow> 'w remote \<Rightarrow> 'w state \<Rightarrow> 'w outcome" where
  "create_endpoint_config_cell V R =
     run_cells
       [client_call V R sagemaker_client ''create_endpoint_config''
          create_endpoint_config_kwargs (store (\<lambda>v g. g\<lparr>response := v\<rparr>)),
        subscript response ''EndpointConfigArn''
          (store (\<lambda>v g. g\<lparr>endpoint_config_arn := v\<rparr>))]"

text \<open>
  \<^verbatim>\<open>endpoint_name = model_name
  response = sagemaker_client.create_endpoint(
      EndpointName="HuggingFaceAsyncEndpoint", EndpointConfigName="beto-sentiment-analysis-async")
  endpoint_arn = response["EndpointArn"]\<close>
  Both names of the request are literals. The statements after the first one are a
  definition of their own, \<open>create_endpoint_request\<close>.
\<close>

definition set_endpoint_name :: "'w state \<Rightarrow> 'w outcome" where
  "set_endpoint_name = assign (\<lambda>g. g\<lparr>endpoint_name := model_name g\<rparr>)"

definition create_endpoint_kwargs :: "globals \<Rightarrow> (string \<times> pyval) list" where
  "create_endpoint_kwargs g =
     [(''EndpointName'', PStr ''HuggingFaceAsyncEndpoint''),
      (''EndpointConfigName'', PStr ''beto-sentiment-analysis-async'')]"

definition create_endpoint_request :: "validation \<Rightarrow> 'w remote \<Rightarrow> 'w state \<Rightarrow> 'w outcome" where
  "create_endpoint_request V R =
     run_cells
       [client_call V R sagemaker_client ''create_endpoint'' create_endpoint_kwargs
          (store (\<lambda>v g. g\<lparr>response := v\<rparr>)),
        subscript response ''EndpointArn'' (store (\<lambda>v g. g\<lparr>endpoint_arn := v\<rparr>))]"

definition create_endpoint_cell :: "validation \<Rightarrow> 'w remote \<Rightarrow> 'w state \<Rightarrow> 'w outcome" where
  "create_endpoint_cell V R = run_cells [set_endpoint_name, create_endpoint_request V R]"

text \<open>
  \<^verbatim>\<open>waiter = sagemaker_client.get_waiter("endpoint_in_service")
  waiter.wait(EndpointName="HuggingFaceAsyncEndpoint")
  resp = sagemaker_client.describe_endpoint(EndpointName="HuggingFaceAsyncEndpoint")
  print(f"Endpoint Status: {resp['EndpointStatus']}")\<close>
  The subscript inside \<open>print\<close> is kept: it can raise.
\<close>

definition endpoint_kwargs :: "globals \<Rightarrow> (string \<times> pyval) list" where
  "endpoint_kwargs g = [(''EndpointName'', PStr ''HuggingFaceAsyncEndpoint'')]"

definition wait_cell :: "validation \<Rightarrow> 'w remote \<Rightarrow> 'w state \<Rightarrow> 'w outcome" where
  "wait_cell V R =
     run_cells
       [waiter_wait V R sagemaker_client ''endpoint_in_service'' endpoint_kwargs,
        client_call V R sagemaker_client ''describe_endpoint'' endpoint_kwargs
          (store (\<lambda>v g. g\<lparr>resp := v\<rparr>)),
        subscript resp ''EndpointStatus'' discard]"

text \<open>\<^verbatim>\<open>input_s3_location = f"s3://{s3_bucket}/{s3_prefix}/input.json"\<close>\<close>

definition set_input_s3_location :: "'w state \<Rightarrow> 'w outcome" where
  "set_input_s3_location =
     assign (\<lambda>g. g\<lparr>input_s3_location :=
       ''s3://'' @ s3_bucket g @ ''/'' @ s3_prefix g @ ''/input.json''\<rparr>)"

text \<open>
  \<^verbatim>\<open>sagemaker_client.describe_endpoint(EndpointName="HuggingFaceAsyncEndpoint",)\<close>
  The response is the value of the cell.
\<close>

definition describe_endpoint_cell :: "validation \<Rightarrow> 'w remote \<Rightarrow> 'w state \<Rightarrow> 'w outcome" where
  "describe_endpoint_cell V R =
     client_call V R sagemaker_client ''describe_endpoint'' endpoint_kwargs display"

text \<open>
  \<^verbatim>\<open>i=0
  for i in range(5000):
      response = sm_runtime.invoke_endpoint_async(
          EndpointName="HuggingFaceAsyncEndpoint",
          InputLocation=input_s3_location,
          ContentType="application/json",
      )\<close>
  The loop is a recursion over the indices \<open>range(5000)\<close> yields.
\<close>

definition invoke_kwargs :: "globals \<Rightarrow> (string \<times> pyval) list" where
  "invoke_kwargs g =
     [(''EndpointName'', PStr ''HuggingFaceAsyncEndpoint''),
      (''InputLocation'', PStr (input_s3_location g)),
      (''ContentType'', PStr ''application/json'')]"

fun invoke_loop :: "validation \<Rightarrow> 'w remote \<Rightarrow> nat list \<Rightarrow> 'w state \<Rightarrow> 'w outcome" where
  "invoke_loop V R [] s = Done s"
| "invoke_loop V R (j # js) s =
     (case client_call V R sm_runtime ''invoke_endpoint_async'' invoke_kwargs
             (store (\<lambda>v g. g\<lparr>response := v\<rparr>))
             (s\<lparr>vars := (vars s)\<lparr>loop_i := int j\<rparr>\<rparr>) of
        Done s' \<Rightarrow> invoke_loop V R js s'
      | Raised e s' \<Rightarrow> Raised e s')"

definition invoke_cell :: "validation \<Rightarrow> 'w remote \<Rightarrow> 'w state \<Rightarrow> 'w outcome" where
  "invoke_cell V R =
     run_cells [assign (\<lambda>g. g\<lparr>loop_i := 0\<rparr>), invoke_loop V R [0..<5000]]"

text \<open>\<^verbatim>\<open>response['OutputLocation']\<close>, the value of the next cell.\<close>

definition output_location_cell :: "'w state \<Rightarrow> 'w outcome" where
  "output_location_cell = subscript response ''OutputLocation'' display"

text \<open>
  \<^verbatim>\<open>response = sagemaker_client.deregister_scalable_target(
      ServiceNamespace="sagemaker", ResourceId="resource_id",
      ScalableDimension="sagemaker:variant:DesiredInstanceCount")\<close>
  This is the only code cell of the clean-up section.
\<close>

definition deregister_kwargs :: "globals \<Rightarrow> (string \<times> pyval) list" where
  "deregister_kwargs g =
     [(''ServiceNamespace'', PStr ''sagemaker''),
      (''ResourceId'', PStr ''resource_id''),
      (''ScalableDimension'', PStr ''sagemaker:variant:DesiredInstanceCount'')]"

definition clean_up_cell :: "validation \<Rightarrow> 'w remote \<Rightarrow> 'w state \<Rightarrow> 'w outcome" where
  "clean_up_cell V R =
     client_call V R sagemaker_client ''deregister_scalable_target'' deregister_kwargs
       (store (\<lambda>v g. g\<lparr>response := v\<rparr>))"

section \<open>The notebook\<close>

text \<open>
  The sections of the notebook, cell after cell in the order of the document: setting up
  model, endpoint configuration and endpoint; using the endpoint; cleaning up.
\<close>

definition setup_cells :: "validation \<Rightarrow> 'w remote \<Rightarrow> ('w state \<Rightarrow> 'w outcome) list" where
  "setup_cells V R =
     [set_model_data_url, set_model_name, create_model_cell V R, set_endpoint_config_name,
      create_endpoint_config_cell V R, create_endpoint_cell V R, wait_cell V R]"

definition use_cells :: "validation \<Rightarrow> 'w remote \<Rightarrow> ('w state \<Rightarrow> 'w outcome) list" where
  "use_cells V R =
     [set_input_s3_location, describe_endpoint_cell V R, invoke_cell V R, output_location_cell]"

definition notebook :: "validation \<Rightarrow> 'w remote \<Rightarrow> 'w state \<Rightarrow> 'w outcome" where
  "notebook V R = run_cells (setup_cells V R @ use_cells V R @ [clean_up_cell V R])"

section \<open>Observing a run\<close>

text \<open>
  The requests a run has sent since the state \<open>s\<close> it started from, and whether an outcome is
  a normal end.
\<close>

definition sent :: "'w state \<Rightarrow> 'w outcome \<Rightarrow> call list" where
  "sent s r = drop (length (trace s)) (map fst (trace (final r)))"

fun completed :: "'w outcome \<Rightarrow> bool" where
  "completed (Done s) = True"
| "completed (Raised e s) = False"

text \<open>The request of one iteration of the invocation loop, for the variables \<open>g\<close>.\<close>

definition invoke_request :: "globals \<Rightarrow> call" where
  "invoke_request g =
     \<lparr>receiver = Client (service_name sm_runtime), operation = ''invoke_endpoint_async'',
      kwargs = invoke_kwargs g\<rparr>"

text \<open>
  The cells before the invocation cell: the set-up section, the assignment of
  \<open>input_s3_location\<close> and the displayed \<open>describe_endpoint\<close>.
\<close>

definition cells_before_invoke ::
  "validation \<Rightarrow> 'w remote \<Rightarrow> ('w state \<Rightarrow> 'w outcome) list" where
  "cells_before_invoke V R =
     setup_cells V R @ [set_input_s3_location, describe_endpoint_cell V R]"

text \<open>
  The notebook cut at the assignment \<open>endpoint_name = model_name\<close>: the statements up to and
  including it, and the statements after it.
\<close>

definition before_endpoint_name :: "validation \<Rightarrow> 'w remote \<Rightarrow> ('w state \<Rightarrow> 'w outcome) list" where
  "before_endpoint_name V R =
     [set_model_data_url, set_model_name, create_model_cell V R, set_endpoint_config_name,
      create_endpoint_config_cell V R, set_endpoint_name]"

definition after_endpoint_name :: "validation \<Rightarrow> 'w remote \<Rightarrow> ('w state \<Rightarrow> 'w outcome) list" where
  "after_endpoint_name V R =
     [create_endpoint_request V R, wait_cell V R] @ use_cells V R @ [clean_up_cell V R]"

text \<open>
  A request names the endpoint when its \<open>EndpointName\<close> argument is the literal of the
  \<open>create_endpoint\<close> request and it is one of the four operations on an endpoint.
\<close>

definition names_endpoint :: "call \<Rightarrow> bool" where
  "names_endpoint c \<longleftrightarrow>
     map_of (kwargs c) ''EndpointName'' = Some (PStr ''HuggingFaceAsyncEndpoint'') \<and>
     operation c \<in> set [''create_endpoint'', ''wait'', ''describe_endpoint'',
                         ''invoke_endpoint_async'']"

definition notebook_operation :: "call \<Rightarrow> bool" where
  "notebook_operation c \<longleftrightarrow>
     operation c \<in> set [''create_model'', ''create_endpoint_config'', ''create_endpoint'',
                         ''wait'', ''describe_endpoint'', ''invoke_endpoint_async'']"

text \<open>
  Giving the variable \<open>endpoint_name\<close> another value, in a state and in the state an outcome
  ends in.
\<close>

definition rebind_endpoint_name :: "string \<Rightarrow> 'w state \<Rightarrow> 'w state" where
  "rebind_endpoint_name x s = s\<lparr>vars := (vars s)\<lparr>endpoint_name := x\<rparr>\<rparr>"

fun on_final :: "('w state \<Rightarrow> 'w state) \<Rightarrow> 'w outcome \<Rightarrow> 'w outcome" where
  "on_final h (Done s) = Done (h s)"
| "on_final h (Raised e s) = Raised e (h s)"

text \<open>Notions for the proofs: what a statement may send, and what it does not read.\<close>

definition keeps_trace :: "(pyval \<Rightarrow> 'w state \<Rightarrow> 'w state) \<Rightarrow> bool" where
  "keeps_trace k \<longleftrightarrow> (\<forall>v s. trace (k v s) = trace s)"

definition sends_only :: "(call \<Rightarrow> bool) \<Rightarrow> ('w state \<Rightarrow> 'w outcome) \<Rightarrow> bool" where
  "sends_only Q f \<longleftrightarrow>
     (\<forall>s. \<exists>xs. trace (final (f s)) = trace s @ xs \<and> list_all Q (map fst xs))"

definition ignores_endpoint_name :: "('w state \<Rightarrow> 'w outcome) \<Rightarrow> bool" where
  "ignores_endpoint_name f \<longleftrightarrow>
     (\<forall>x s. f (rebind_endpoint_name x s) = on_final (rebind_endpoint_name x) (f s))"

definition commutes :: "(pyval \<Rightarrow> 'w state \<Rightarrow> 'w state) \<Rightarrow> bool" where
  "commutes k \<longleftrightarrow>
     (\<forall>x v s. k v (rebind_endpoint_name x s) = rebind_endpoint_name x (k v s))"

section \<open>A sample run\<close>

text \<open>
  A concrete run to evaluate the notebook on: the region, role, bucket, prefix and container
  image that the outputs stored in the notebook show, and a service that accepts every
  request and answers with the identifiers, the status and the output location of those
  outputs. Its world counts the requests it has received. The variables that the cells
  assign are empty in the initial state; the run sets each before it is read.
\<close>

definition sample_reply :: pyval where
  "sample_reply =
     PDict
       [(''ModelArn'', PStr
          ''arn:aws:sagemaker:us-west-2:976939723775:model/beto-sentiment-analysis-async-1005''),
        (''EndpointConfigArn'', PStr
          ''arn:aws:sagemaker:us-west-2:976939723775:endpoint-config/beto-sentiment-analysis-async-1005''),
        (''EndpointArn'', PStr
          ''arn:aws:sagemaker:us-west-2:976939723775:endpoint/huggingfaceasyncendpoint''),
        (''EndpointStatus'', PStr ''InService''),
        (''OutputLocation'', PStr
          ''s3://sagemaker-us-west-2-976939723775/huggingface/hf_hub/output/cb22f063-73e6-4a7b-9cb2-b849c36cd33d.out'')]"

definition sample_service :: "nat remote" where
  "sample_service rq n = (Inr sample_reply, Suc n)"

text \<open>
  The check of the sample run refuses a request that has an empty string among its
  arguments, as the SDK refuses an empty \<open>InputLocation\<close> or \<open>ExecutionRoleArn\<close> for being
  under the minimum length, and passes every other request.
\<close>

definition sample_validation :: validation where
  "sample_validation rq =
     (if PStr [] \<in> set (map snd (kwargs rq)) then Some ''Parameter validation failed''
      else None)"

definition sample_globals :: globals where
  "sample_globals =
     \<lparr>region = ''us-west-2'',
      role = ''arn:aws:iam::976939723775:role/service-role/AmazonSageMaker-ExecutionRole-20210317T133000'',
      s3_bucket = ''sagemaker-us-west-2-976939723775'',
      s3_prefix = ''huggingface/hf_hub'',
      ecr_image = ''763104351884.dkr.ecr.us-west-2.amazonaws.com/huggingface-pytorch-inference:1.10.2-transformers4.17.0-cpu-py38-ubuntu20.04'',
      MODEL_DATA_URL = [], model_name = [], model_arn = PNone, endpoint_config_name = [],
      endpoint_config_arn = PNone, endpoint_name = [], endpoint_arn = PNone, resp = PNone,
      input_s3_location = [], loop_i = 0, response = PNone\<rparr>"

definition sample_state :: "nat state" where
  "sample_state = \<lparr>vars = sample_globals, world = 0, displayed = [], trace = []\<rparr>"

text \<open>The requests of the set-up section when each is accepted, for the initial variables \<open>g\<close>.\<close>

definition setup_requests :: "globals \<Rightarrow> call list" where
  "setup_requests g =
     [\<lparr>receiver = Client ''sagemaker'', operation = ''create_model'',
       kwargs = create_model_kwargs
         (g\<lparr>MODEL_DATA_URL :=
              ''s3://'' @ s3_bucket g @ ''/'' @ s3_prefix g @ ''/sentimentanalysis.tar.gz'',
            model_name := ''beto-sentiment-analysis-async-1005''\<rparr>)\<rparr>,
      \<lparr>receiver = Client ''sagemaker'', operation = ''create_endpoint_config'',
       kwargs = create_endpoint_config_kwargs
         (g\<lparr>model_name := ''beto-sentiment-analysis-async-1005'',
            endpoint_config_name := ''beto-sentiment-analysis-async-1005''\<rparr>)\<rparr>,
      \<lparr>receiver = Client ''sagemaker'', operation = ''create_endpoint'',
       kwargs = create_endpoint_kwargs g\<rparr>,
      \<lparr>receiver = Waiter ''sagemaker'' ''endpoint_in_service'', operation = ''wait'',
       kwargs = endpoint_kwargs g\<rparr>,
      \<lparr>receiver = Client ''sagemaker'', operation = ''describe_endpoint'',
       kwargs = endpoint_kwargs g\<rparr>]"

section \<open>Running cells\<close>

lemma run_cells_append:
  "run_cells (xs @ ys) s =
     (case run_cells xs s of Done s' \<Rightarrow> run_cells ys s' | Raised e s' \<Rightarrow> Raised e s')"
  by (induction xs arbitrary: s) (auto split: outcome.splits)

lemma run_cells_Cons_Done:
  "run_cells (c # cs) s = Done s' \<longleftrightarrow> (\<exists>s1. c s = Done s1 \<and> run_cells cs s1 = Done s')"
  by (cases "c s") simp_all

lemma run_cells_flatten:
  "run_cells (xs @ run_cells ys # zs) = run_cells (xs @ ys @ zs)"
proof
  fix s
  have "run_cells (run_cells ys # zs) s = run_cells (ys @ zs) s" for s
    by (simp add: run_cells_append split: outcome.splits)
  then show "run_cells (xs @ run_cells ys # zs) s = run_cells (xs @ ys @ zs) s"
    by (simp add: run_cells_append [of xs] split: outcome.splits)
qed

lemma notebook_split:
  "notebook V R = run_cells (before_endpoint_name V R @ after_endpoint_name V R)"
proof -
  have "notebook V R =
      run_cells ([set_model_data_url, set_model_name, create_model_cell V R,
                  set_endpoint_config_name, create_endpoint_config_cell V R] @
                 run_cells [set_endpoint_name, create_endpoint_request V R] #
                 (wait_cell V R # use_cells V R @ [clean_up_cell V R]))"
    by (simp add: notebook_def setup_cells_def create_endpoint_cell_def)
  also have "\<dots> = run_cells (before_endpoint_name V R @ after_endpoint_name V R)"
    unfolding run_cells_flatten
    by (simp add: before_endpoint_name_def after_endpoint_name_def)
  finally show ?thesis .
qed

section \<open>What a run sends\<close>

lemma keeps_trace_store: "keeps_trace (store f)"
  by (simp add: keeps_trace_def store_def)

lemma keeps_trace_display: "keeps_trace display"
  by (simp add: keeps_trace_def display_def)

lemma keeps_trace_discard: "keeps_trace discard"
  by (simp add: keeps_trace_def discard_def)

lemma sends_only_assign: "sends_only Q (assign f)"
  by (simp add: sends_only_def assign_def)

lemma sends_only_subscript: "keeps_trace k \<Longrightarrow> sends_only Q (subscript x key k)"
  by (auto simp: sends_only_def subscript_def keeps_trace_def split: sum.splits)

lemma sends_only_client_call:
  assumes "keeps_trace k"
    and "\<And>g. Q \<lparr>receiver = Client (service_name c), operation = item, kwargs = kw g\<rparr>"
  shows "sends_only Q (client_call V R c item kw k)"
  using assms
  by (auto simp: sends_only_def client_call_def send_def getattr_client_def keeps_trace_def
      split: sum.splits prod.splits option.splits)

lemma sends_only_waiter_wait:
  assumes "\<And>g. Q \<lparr>receiver = Waiter (service_name c) name, operation = ''wait'', kwargs = kw g\<rparr>"
  shows "sends_only Q (waiter_wait V R c name kw)"
  using assms
  by (auto simp: sends_only_def waiter_wait_def send_def getattr_client_def
      split: sum.splits prod.splits option.splits)

lemma sends_only_run_cells:
  "list_all (sends_only Q) cs \<Longrightarrow> sends_only Q (run_cells cs)"
proof (induction cs)
  case Nil
  show ?case by (simp add: sends_only_def)
next
  case (Cons c cs)
  then have c: "sends_only Q c" and cs: "sends_only Q (run_cells cs)" by simp_all
  show ?case
    unfolding sends_only_def
  proof
    fix s
    from c obtain xs where xs: "trace (final (c s)) = trace s @ xs" "list_all Q (map fst xs)"
      unfolding sends_only_def by blast
    show "\<exists>zs. trace (final (run_cells (c # cs) s)) = trace s @ zs \<and> list_all Q (map fst zs)"
    proof (cases "c s")
      case (Done s')
      from cs obtain ys where ys: "trace (final (run_cells cs s')) = trace s' @ ys"
        "list_all Q (map fst ys)"
        unfolding sends_only_def by blast
      from Done xs ys show ?thesis by simp
    next
      case (Raised e s')
      with xs show ?thesis by simp
    qed
  qed
qed

lemma sends_only_invoke_loop:
  assumes "\<And>g. Q \<lparr>receiver = Client ''sagemaker-runtime'', operation = ''invoke_endpoint_async'',
                    kwargs = invoke_kwargs g\<rparr>"
  shows "sends_only Q (invoke_loop V R js)"
proof -
  have step: "sends_only Q (client_call V R sm_runtime ''invoke_endpoint_async'' invoke_kwargs
                 (store (\<lambda>v g. g\<lparr>response := v\<rparr>)))"
    by (rule sends_only_client_call) (simp_all add: keeps_trace_store sm_runtime_def assms)
  have "\<exists>xs. trace (final (invoke_loop V R js s)) = trace s @ xs \<and> list_all Q (map fst xs)" for s
  proof (induction js arbitrary: s)
    case Nil
    show ?case by simp
  next
    case (Cons j js)
    let ?s = "s\<lparr>vars := (vars s)\<lparr>loop_i := int j\<rparr>\<rparr>"
    let ?c = "client_call V R sm_runtime ''invoke_endpoint_async'' invoke_kwargs
                 (store (\<lambda>v g. g\<lparr>response := v\<rparr>))"
    from step obtain xs where xs: "trace (final (?c ?s)) = trace ?s @ xs" "list_all Q (map fst xs)"
      unfolding sends_only_def by blast
    show ?case
    proof (cases "?c ?s")
      case (Done s')
      from Cons.IH [of s'] obtain ys where "trace (final (invoke_loop V R js s')) = trace s' @ ys"
        "list_all Q (map fst ys)" by blast
      with Done xs show ?thesis by simp
    next
      case (Raised e s')
      with xs show ?thesis by simp
    qed
  qed
  then show ?thesis by (simp add: sends_only_def)
qed

lemma sends_only_sent: "sends_only Q f \<Longrightarrow> list_all Q (sent s (f s))"
  unfolding sends_only_def sent_def
proof -
  assume a: "\<forall>s. \<exists>xs. trace (final (f s)) = trace s @ xs \<and> list_all Q (map fst xs)"
  then obtain xs where "trace (final (f s)) = trace s @ xs" "list_all Q (map fst xs)" by blast
  then show "list_all Q (drop (length (trace s)) (map fst (trace (final (f s)))))" by simp
qed

lemma clean_up_raises:
  "clean_up_cell V R s =
     Raised (AttributeError (quoted ''SageMaker'' @ '' object has no attribute '' @
                             quoted ''deregister_scalable_target'')) s"
  by (simp add: clean_up_cell_def client_call_def getattr_client_def sagemaker_client_def)

lemmas call_cell_intros = sends_only_run_cells sends_only_client_call sends_only_waiter_wait
  sends_only_subscript sends_only_assign keeps_trace_store keeps_trace_display keeps_trace_discard

lemma sends_only_create_model:
  assumes "\<And>g. Q \<lparr>receiver = Client ''sagemaker'', operation = ''create_model'',
                    kwargs = create_model_kwargs g\<rparr>"
  shows "sends_only Q (create_model_cell V R)"
  unfolding create_model_cell_def
  by (intro sends_only_run_cells) (simp add: call_cell_intros assms sagemaker_client_def)

lemma sends_only_create_endpoint_config:
  assumes "\<And>g. Q \<lparr>receiver = Client ''sagemaker'', operation = ''create_endpoint_config'',
                    kwargs = create_endpoint_config_kwargs g\<rparr>"
  shows "sends_only Q (create_endpoint_config_cell V R)"
  unfolding create_endpoint_config_cell_def
  by (intro sends_only_run_cells) (simp add: call_cell_intros assms sagemaker_client_def)

lemma sends_only_create_endpoint_request:
  assumes "\<And>g. Q \<lparr>receiver = Client ''sagemaker'', operation = ''create_endpoint'',
                    kwargs = create_endpoint_kwargs g\<rparr>"
  shows "sends_only Q (create_endpoint_request V R)"
  unfolding create_endpoint_request_def
  by (intro sends_only_run_cells) (simp add: call_cell_intros assms sagemaker_client_def)

lemma sends_only_wait:
  assumes "\<And>g. Q \<lparr>receiver = Waiter ''sagemaker'' ''endpoint_in_service'', operation = ''wait'',
                    kwargs = endpoint_kwargs g\<rparr>"
    and "\<And>g. Q \<lparr>receiver = Client ''sagemaker'', operation = ''describe_endpoint'',
                    kwargs = endpoint_kwargs g\<rparr>"
  shows "sends_only Q (wait_cell V R)"
  unfolding wait_cell_def
  by (intro sends_only_run_cells) (simp add: call_cell_intros assms sagemaker_client_def)

lemma sends_only_describe:
  assumes "\<And>g. Q \<lparr>receiver = Client ''sagemaker'', operation = ''describe_endpoint'',
                    kwargs = endpoint_kwargs g\<rparr>"
  shows "sends_only Q (describe_endpoint_cell V R)"
  unfolding describe_endpoint_cell_def
  by (simp add: call_cell_intros assms sagemaker_client_def)

lemma sends_only_invoke_cell:
  assumes "\<And>g. Q \<lparr>receiver = Client ''sagemaker-runtime'', operation = ''invoke_endpoint_async'',
                    kwargs = invoke_kwargs g\<rparr>"
  shows "sends_only Q (invoke_cell V R)"
  unfolding invoke_cell_def
  by (intro sends_only_run_cells) (simp add: sends_only_assign sends_only_invoke_loop assms)

lemma sends_only_clean_up: "sends_only Q (clean_up_cell V R)"
  by (simp add: sends_only_def clean_up_raises)

lemma sends_only_use:
  assumes "\<And>g. Q \<lparr>receiver = Client ''sagemaker'', operation = ''describe_endpoint'',
                    kwargs = endpoint_kwargs g\<rparr>"
    and "\<And>g. Q \<lparr>receiver = Client ''sagemaker-runtime'', operation = ''invoke_endpoint_async'',
                    kwargs = invoke_kwargs g\<rparr>"
  shows "sends_only Q (run_cells (use_cells V R @ [clean_up_cell V R]))"
  unfolding use_cells_def set_input_s3_location_def output_location_cell_def
  by (intro sends_only_run_cells)
    (simp add: call_cell_intros assms sends_only_describe sends_only_invoke_cell
      sends_only_clean_up)

lemma sends_only_after:
  "sends_only names_endpoint (run_cells (after_endpoint_name V R))"
  unfolding after_endpoint_name_def use_cells_def set_input_s3_location_def
    output_location_cell_def
  by (intro sends_only_run_cells)
    (simp add: call_cell_intros sends_only_describe sends_only_invoke_cell
      sends_only_clean_up sends_only_create_endpoint_request sends_only_wait
      names_endpoint_def create_endpoint_kwargs_def endpoint_kwargs_def invoke_kwargs_def)

lemma sends_only_notebook: "sends_only notebook_operation (notebook V R)"
  unfolding notebook_def setup_cells_def use_cells_def set_input_s3_location_def
    output_location_cell_def set_model_data_url_def set_model_name_def
    set_endpoint_config_name_def create_endpoint_cell_def set_endpoint_name_def
  by (intro sends_only_run_cells)
    (simp add: call_cell_intros sends_only_describe sends_only_invoke_cell
      sends_only_clean_up sends_only_create_endpoint_request sends_only_wait
      sends_only_create_model sends_only_create_endpoint_config
      notebook_operation_def)

lemma operations_sent: "list_all notebook_operation (sent s (notebook V R s))"
  by (rule sends_only_sent) (rule sends_only_notebook)

section \<open>The invocation loop\<close>

lemma invoke_step:
  "client_call V R sm_runtime ''invoke_endpoint_async'' invoke_kwargs
     (store (\<lambda>v g. g\<lparr>response := v\<rparr>)) s =
   (case V (invoke_request (vars s)) of
      Some msg \<Rightarrow> Raised (ParamValidationError msg) s
    | None \<Rightarrow>
        (case R (invoke_request (vars s)) (world s) of
           (Inl msg, w') \<Rightarrow>
             Raised (ClientError msg)
               (s\<lparr>world := w', trace := trace s @ [(invoke_request (vars s), Inl msg)]\<rparr>)
         | (Inr v, w') \<Rightarrow>
             Done (s\<lparr>vars := (vars s)\<lparr>response := v\<rparr>, world := w',
                     trace := trace s @ [(invoke_request (vars s), Inr v)]\<rparr>)))"
  by (simp add: client_call_def getattr_client_def sm_runtime_def send_def store_def
      invoke_request_def invoke_kwargs_def split: prod.splits sum.splits option.splits)

lemma invoke_loop_done:
  "invoke_loop V R js s = Done s' \<Longrightarrow>
   \<exists>vs. length vs = length js \<and>
        trace s' = trace s @ map (\<lambda>v. (invoke_request (vars s), Inr v)) vs \<and>
        displayed s' = displayed s \<and>
        vars s' = (if js = [] then vars s
                   else (vars s)\<lparr>loop_i := int (last js), response := last vs\<rparr>)"
proof (induction js arbitrary: s)
  case Nil
  then show ?case by simp
next
  case (Cons j js)
  let ?s = "s\<lparr>vars := (vars s)\<lparr>loop_i := int j\<rparr>\<rparr>"
  from Cons.prems obtain v w' where V: "V (invoke_request (vars ?s)) = None"
    and R: "R (invoke_request (vars ?s)) (world ?s) = (Inr v, w')"
    by (auto simp: invoke_step split: prod.splits sum.splits option.splits)
  define s1 where "s1 = ?s\<lparr>vars := (vars ?s)\<lparr>response := v\<rparr>, world := w',
                trace := trace ?s @ [(invoke_request (vars ?s), Inr v)]\<rparr>"
  from Cons.prems V R have rest: "invoke_loop V R js s1 = Done s'"
    by (simp add: invoke_step s1_def)
  have rq: "invoke_request (vars s1) = invoke_request (vars s)"
    by (simp add: s1_def invoke_request_def invoke_kwargs_def)
  from Cons.IH [OF rest] obtain vs where vs: "length vs = length js"
    "trace s' = trace s1 @ map (\<lambda>v. (invoke_request (vars s1), Inr v)) vs"
    "displayed s' = displayed s1"
    "vars s' = (if js = [] then vars s1
                else (vars s1)\<lparr>loop_i := int (last js), response := last vs\<rparr>)"
    by blast
  have "length (v # vs) = length (j # js)" using vs(1) by simp
  moreover have "trace s' = trace s @ map (\<lambda>v. (invoke_request (vars s), Inr v)) (v # vs)"
    using vs(2) rq by (simp add: s1_def invoke_request_def invoke_kwargs_def)
  moreover have "displayed s' = displayed s" using vs(3) by (simp add: s1_def)
  moreover have "vars s' = (vars s)\<lparr>loop_i := int (last (j # js)), response := last (v # vs)\<rparr>"
  proof (cases "js = []")
    case True
    with vs(1,4) show ?thesis by (simp add: s1_def)
  next
    case False
    with vs(1) have "vs \<noteq> []" by auto
    with False vs(4) show ?thesis by (simp add: s1_def)
  qed
  ultimately show ?case by (intro exI [of _ "v # vs"]) simp
qed

lemma invoke_loop_prefix:
  "\<exists>as. length as \<le> length js \<and>
        trace (final (invoke_loop V R js s)) = trace s @ map (Pair (invoke_request (vars s))) as"
proof (induction js arbitrary: s)
  case Nil
  show ?case by simp
next
  case (Cons j js)
  let ?s = "s\<lparr>vars := (vars s)\<lparr>loop_i := int j\<rparr>\<rparr>"
  have rq0: "invoke_request (vars ?s) = invoke_request (vars s)"
    by (simp add: invoke_request_def invoke_kwargs_def)
  show ?case
  proof (cases "V (invoke_request (vars s))")
    case (Some msg)
    with rq0 have "trace (final (invoke_loop V R (j # js) s)) =
        trace s @ map (Pair (invoke_request (vars s))) []"
      by (simp add: invoke_step)
    then show ?thesis by (intro exI [of _ "[]"]) simp
  next
    case None
    obtain a w' where R: "R (invoke_request (vars s)) (world s) = (a, w')"
      by (cases "R (invoke_request (vars s)) (world s)")
    show ?thesis
    proof (cases a)
      case (Inl msg)
      with None R rq0 have "trace (final (invoke_loop V R (j # js) s)) =
          trace s @ map (Pair (invoke_request (vars s))) [Inl msg]"
        by (simp add: invoke_step)
      then show ?thesis by (intro exI [of _ "[Inl msg]"]) simp
    next
      case (Inr v)
      define s1 where "s1 = ?s\<lparr>vars := (vars ?s)\<lparr>response := v\<rparr>, world := w',
                  trace := trace ?s @ [(invoke_request (vars ?s), Inr v)]\<rparr>"
      from Inr None R rq0 have eq: "invoke_loop V R (j # js) s = invoke_loop V R js s1"
        by (simp add: invoke_step s1_def)
      have rq: "invoke_request (vars s1) = invoke_request (vars s)"
        by (simp add: s1_def invoke_request_def invoke_kwargs_def)
      from Cons.IH [of s1] obtain as where as: "length as \<le> length js"
        "trace (final (invoke_loop V R js s1)) =
           trace s1 @ map (Pair (invoke_request (vars s1))) as"
        by blast
      have "trace (final (invoke_loop V R (j # js) s)) =
          trace s @ map (Pair (invoke_request (vars s))) (Inr v # as)"
        using as(2) rq eq by (simp add: s1_def invoke_request_def invoke_kwargs_def)
      with as(1) show ?thesis by (intro exI [of _ "Inr v # as"]) simp
    qed
  qed
qed

text \<open>
  The loop looks at no answer: when the request passes the check of its arguments and the
  service accepts it in every world, the loop runs to its end, whatever the answers hold.
\<close>

lemma invoke_loop_completes:
  assumes "V (invoke_request (vars s)) = None"
    and "\<forall>w. \<exists>v w'. R (invoke_request (vars s)) w = (Inr v, w')"
  shows "completed (invoke_loop V R js s)"
  using assms
proof (induction js arbitrary: s)
  case Nil
  show ?case by simp
next
  case (Cons j js)
  let ?s = "s\<lparr>vars := (vars s)\<lparr>loop_i := int j\<rparr>\<rparr>"
  have rq0: "invoke_request (vars ?s) = invoke_request (vars s)"
    by (simp add: invoke_request_def invoke_kwargs_def)
  from Cons.prems(2) obtain v w' where R: "R (invoke_request (vars s)) (world s) = (Inr v, w')"
    by blast
  define s1 where "s1 = ?s\<lparr>vars := (vars ?s)\<lparr>response := v\<rparr>, world := w',
              trace := trace ?s @ [(invoke_request (vars ?s), Inr v)]\<rparr>"
  from Cons.prems(1) R rq0 have eq: "invoke_loop V R (j # js) s = invoke_loop V R js s1"
    by (simp add: invoke_step s1_def)
  have rq: "invoke_request (vars s1) = invoke_request (vars s)"
    by (simp add: s1_def invoke_request_def invoke_kwargs_def)
  from Cons.IH [of s1] Cons.prems rq have "completed (invoke_loop V R js s1)" by simp
  with eq show ?case by simp
qed

section \<open>The variable \<open>endpoint_name\<close>\<close>

lemma commutes_display: "commutes display"
  by (simp add: commutes_def display_def rebind_endpoint_name_def)

lemma commutes_discard: "commutes discard"
  by (simp add: commutes_def discard_def)

lemma commutes_store:
  "(\<And>x v g. f v (g\<lparr>endpoint_name := x\<rparr>) = (f v g)\<lparr>endpoint_name := x\<rparr>) \<Longrightarrow> commutes (store f)"
  by (simp add: commutes_def store_def rebind_endpoint_name_def)

lemma ignores_assign:
  "(\<And>x g. f (g\<lparr>endpoint_name := x\<rparr>) = (f g)\<lparr>endpoint_name := x\<rparr>) \<Longrightarrow>
   ignores_endpoint_name (assign f)"
  by (simp add: ignores_endpoint_name_def assign_def rebind_endpoint_name_def)

lemma ignores_subscript:
  "commutes k \<Longrightarrow> (\<And>x g. y (g\<lparr>endpoint_name := x\<rparr>) = y g) \<Longrightarrow>
   ignores_endpoint_name (subscript y key k)"
  by (auto simp: ignores_endpoint_name_def subscript_def commutes_def rebind_endpoint_name_def
      split: sum.splits)

lemma rebind_simps:
  "vars (rebind_endpoint_name x s) = (vars s)\<lparr>endpoint_name := x\<rparr>"
  "world (rebind_endpoint_name x s) = world s"
  "trace (rebind_endpoint_name x s) = trace s"
  "displayed (rebind_endpoint_name x s) = displayed s"
  "(rebind_endpoint_name x s)\<lparr>world := w, trace := t\<rparr> =
     rebind_endpoint_name x (s\<lparr>world := w, trace := t\<rparr>)"
  by (simp_all add: rebind_endpoint_name_def)

lemma ignores_client_call:
  assumes "commutes k" and "\<And>x g. kw (g\<lparr>endpoint_name := x\<rparr>) = kw g"
  shows "ignores_endpoint_name (client_call V R c item kw k)"
proof -
  have k: "k v (rebind_endpoint_name x s) = rebind_endpoint_name x (k v s)" for v s x
    using assms(1) by (simp add: commutes_def)
  show ?thesis
    unfolding ignores_endpoint_name_def
    by (auto simp: client_call_def send_def assms(2) k rebind_simps
        split: sum.splits prod.splits option.splits)
qed

lemma ignores_waiter_wait:
  assumes "\<And>x g. kw (g\<lparr>endpoint_name := x\<rparr>) = kw g"
  shows "ignores_endpoint_name (waiter_wait V R c name kw)"
  unfolding ignores_endpoint_name_def
  by (auto simp: waiter_wait_def send_def assms rebind_simps
      split: sum.splits prod.splits option.splits)

lemma ignores_run_cells:
  "list_all ignores_endpoint_name cs \<Longrightarrow> ignores_endpoint_name (run_cells cs)"
proof (induction cs)
  case Nil
  show ?case by (simp add: ignores_endpoint_name_def)
next
  case (Cons c cs)
  then have c: "\<And>x s. c (rebind_endpoint_name x s) = on_final (rebind_endpoint_name x) (c s)"
    and cs: "\<And>x s. run_cells cs (rebind_endpoint_name x s) =
               on_final (rebind_endpoint_name x) (run_cells cs s)"
    by (simp_all add: ignores_endpoint_name_def)
  show ?case
    unfolding ignores_endpoint_name_def
  proof (intro allI)
    fix x s
    show "run_cells (c # cs) (rebind_endpoint_name x s) =
          on_final (rebind_endpoint_name x) (run_cells (c # cs) s)"
      by (cases "c s") (simp_all add: c cs)
  qed
qed

lemma ignores_invoke_loop: "ignores_endpoint_name (invoke_loop V R js)"
proof -
  let ?c = "client_call V R sm_runtime ''invoke_endpoint_async'' invoke_kwargs
              (store (\<lambda>v g. g\<lparr>response := v\<rparr>))"
  have "ignores_endpoint_name ?c"
    by (intro ignores_client_call commutes_store) (simp_all add: invoke_kwargs_def)
  then have c: "?c (rebind_endpoint_name x s) = on_final (rebind_endpoint_name x) (?c s)" for x s
    by (simp add: ignores_endpoint_name_def)
  have sw: "(rebind_endpoint_name x s)\<lparr>vars := (vars (rebind_endpoint_name x s))\<lparr>loop_i := n\<rparr>\<rparr> =
            rebind_endpoint_name x (s\<lparr>vars := (vars s)\<lparr>loop_i := n\<rparr>\<rparr>)" for x n and s :: "'a state"
    by (simp add: rebind_endpoint_name_def)
  have "invoke_loop V R js (rebind_endpoint_name x s) =
        on_final (rebind_endpoint_name x) (invoke_loop V R js s)" for x s
  proof (induction js arbitrary: s)
    case Nil
    show ?case by simp
  next
    case (Cons j js)
    show ?case
      by (cases "?c (s\<lparr>vars := (vars s)\<lparr>loop_i := int j\<rparr>\<rparr>)") (simp_all add: sw c Cons.IH)
  qed
  then show ?thesis by (simp add: ignores_endpoint_name_def)
qed

lemmas ignores_intros = ignores_run_cells ignores_client_call ignores_waiter_wait
  ignores_subscript ignores_assign ignores_invoke_loop commutes_store commutes_display
  commutes_discard

lemma ignores_after: "ignores_endpoint_name (run_cells (after_endpoint_name V R))"
  unfolding after_endpoint_name_def use_cells_def create_endpoint_request_def wait_cell_def
    set_input_s3_location_def describe_endpoint_cell_def invoke_cell_def
    output_location_cell_def clean_up_cell_def
  by (intro ignores_run_cells)
    (simp add: ignores_intros create_endpoint_kwargs_def endpoint_kwargs_def
      deregister_kwargs_def)

lemma create_model_cell_model_name:
  "create_model_cell V R s = Done s' \<Longrightarrow> model_name (vars s') = model_name (vars s)"
  by (auto simp: create_model_cell_def client_call_def send_def subscript_def store_def
      split: sum.splits prod.splits option.splits)

lemma create_endpoint_config_cell_model_name:
  "create_endpoint_config_cell V R s = Done s' \<Longrightarrow> model_name (vars s') = model_name (vars s)"
  by (auto simp: create_endpoint_config_cell_def client_call_def send_def subscript_def store_def
      split: sum.splits prod.splits option.splits)

lemma before_endpoint_name_done:
  assumes "run_cells (before_endpoint_name V R) s = Done s'"
  shows "endpoint_name (vars s') = ''beto-sentiment-analysis-async-1005''"
proof -
  from assms obtain s1 s2 s3 s4 s5 where
    1: "set_model_data_url s = Done s1" and
    2: "set_model_name s1 = Done s2" and
    3: "create_model_cell V R s2 = Done s3" and
    4: "set_endpoint_config_name s3 = Done s4" and
    5: "create_endpoint_config_cell V R s4 = Done s5" and
    6: "set_endpoint_name s5 = Done s'"
    unfolding before_endpoint_name_def run_cells_Cons_Done by auto
  from 2 have "model_name (vars s2) = ''beto-sentiment-analysis-async-1005''"
    by (auto simp: set_model_name_def assign_def)
  with 3 have "model_name (vars s3) = ''beto-sentiment-analysis-async-1005''"
    by (simp add: create_model_cell_model_name)
  with 4 have "model_name (vars s4) = ''beto-sentiment-analysis-async-1005''"
    by (auto simp: set_endpoint_config_name_def assign_def)
  with 5 have "model_name (vars s5) = ''beto-sentiment-analysis-async-1005''"
    by (simp add: create_endpoint_config_cell_model_name)
  with 6 show ?thesis
    by (auto simp: set_endpoint_name_def assign_def)
qed

section \<open>The sample run\<close>

lemma sample_call:
  "item \<in> set (methods c) \<Longrightarrow> PStr [] \<notin> set (map snd (kw (vars s))) \<Longrightarrow>
   client_call sample_validation sample_service c item kw k s =
     Done (k sample_reply (s\<lparr>world := Suc (world s),
        trace := trace s @ [(\<lparr>receiver = Client (service_name c), operation = item,
                               kwargs = kw (vars s)\<rparr>, Inr sample_reply)]\<rparr>))"
  by (simp add: client_call_def getattr_client_def send_def sample_service_def
      sample_validation_def)

lemma sample_wait:
  "''get_waiter'' \<in> set (methods c) \<Longrightarrow> PStr [] \<notin> set (map snd (kw (vars s))) \<Longrightarrow>
   waiter_wait sample_validation sample_service c name kw s =
     Done (s\<lparr>world := Suc (world s),
        trace := trace s @ [(\<lparr>receiver = Waiter (service_name c) name, operation = ''wait'',
                               kwargs = kw (vars s)\<rparr>, Inr sample_reply)]\<rparr>)"
  by (simp add: waiter_wait_def getattr_client_def send_def sample_service_def
      sample_validation_def)

lemma sample_setup:
  "\<exists>s'. run_cells (setup_cells sample_validation sample_service) sample_state = Done s' \<and>
        map fst (trace s') = setup_requests sample_globals \<and>
        s3_bucket (vars s') = ''sagemaker-us-west-2-976939723775'' \<and>
        s3_prefix (vars s') = ''huggingface/hf_hub''"
  by (simp add: setup_cells_def set_model_data_url_def set_model_name_def create_model_cell_def
      set_endpoint_config_name_def create_endpoint_config_cell_def create_endpoint_cell_def
      set_endpoint_name_def create_endpoint_request_def wait_cell_def
      sample_call sample_wait sagemaker_client_def subscript_def assign_def store_def discard_def
      sample_reply_def sample_state_def sample_globals_def create_model_kwargs_def
      create_endpoint_config_kwargs_def create_endpoint_kwargs_def endpoint_kwargs_def
      setup_requests_def)

lemma sample_before_invoke:
  "\<exists>s'. run_cells (cells_before_invoke sample_validation sample_service) sample_state =
          Done s' \<and>
        input_s3_location (vars s') =
          ''s3://sagemaker-us-west-2-976939723775/huggingface/hf_hub/input.json''"
proof -
  from sample_setup obtain s1 where
    1: "run_cells (setup_cells sample_validation sample_service) sample_state = Done s1" and
    b: "s3_bucket (vars s1) = ''sagemaker-us-west-2-976939723775''" and
    p: "s3_prefix (vars s1) = ''huggingface/hf_hub''"
    by (elim exE conjE)
  have "\<exists>s'. run_cells [set_input_s3_location,
                describe_endpoint_cell sample_validation sample_service] s1 = Done s' \<and>
        input_s3_location (vars s') =
          ''s3://sagemaker-us-west-2-976939723775/huggingface/hf_hub/input.json''"
    by (simp add: set_input_s3_location_def assign_def describe_endpoint_cell_def sample_call
        sagemaker_client_def endpoint_kwargs_def display_def b p)
  with 1 show ?thesis
    by (simp add: cells_before_invoke_def
        run_cells_append [of "setup_cells sample_validation sample_service"])
qed

lemma sample_validation_invoke:
  "input_s3_location g \<noteq> [] \<Longrightarrow> sample_validation (invoke_request g) = None"
  by (simp add: sample_validation_def invoke_request_def invoke_kwargs_def)

lemma sample_invoke_loop:
  "input_s3_location (vars s) \<noteq> [] \<Longrightarrow>
   \<exists>s'. invoke_loop sample_validation sample_service js s = Done s' \<and>
        (js \<noteq> [] \<longrightarrow> response (vars s') = sample_reply)"
proof (induction js arbitrary: s)
  case Nil
  show ?case by simp
next
  case (Cons j js)
  let ?s = "s\<lparr>vars := (vars s)\<lparr>loop_i := int j\<rparr>\<rparr>"
  define s1 where "s1 = ?s\<lparr>vars := (vars ?s)\<lparr>response := sample_reply\<rparr>,
                world := Suc (world ?s),
                trace := trace ?s @ [(invoke_request (vars ?s), Inr sample_reply)]\<rparr>"
  from Cons.prems have ok: "sample_validation (invoke_request ((vars s)\<lparr>loop_i := int j\<rparr>)) = None"
    by (simp add: sample_validation_invoke)
  have eq: "invoke_loop sample_validation sample_service (j # js) s =
            invoke_loop sample_validation sample_service js s1"
    by (simp add: invoke_step ok sample_service_def s1_def)
  from Cons.prems have "input_s3_location (vars s1) \<noteq> []" by (simp add: s1_def)
  from Cons.IH [OF this] obtain s' where
    s': "invoke_loop sample_validation sample_service js s1 = Done s'"
    "js \<noteq> [] \<longrightarrow> response (vars s') = sample_reply" by blast
  have "response (vars s') = sample_reply"
  proof (cases "js = []")
    case True
    with s'(1) show ?thesis by (auto simp: s1_def)
  next
    case False
    with s'(2) show ?thesis by simp
  qed
  with eq s'(1) show ?case by simp
qed

lemma sample_invoke_cell:
  "input_s3_location (vars s) \<noteq> [] \<Longrightarrow>
   \<exists>s'. invoke_cell sample_validation sample_service s = Done s' \<and>
        response (vars s') = sample_reply"
proof -
  assume a: "input_s3_location (vars s) \<noteq> []"
  have ne: "[0..<5000] \<noteq> []" by simp
  from a have "input_s3_location (vars (s\<lparr>vars := (vars s)\<lparr>loop_i := 0\<rparr>\<rparr>)) \<noteq> []" by simp
  from sample_invoke_loop [OF this, of "[0..<5000]"] ne
  show ?thesis
    unfolding invoke_cell_def run_cells.simps assign_def by auto
qed

lemma sample_before_clean_up:
  "completed (run_cells (setup_cells sample_validation sample_service @
                         use_cells sample_validation sample_service) sample_state)"
proof -
  from sample_before_invoke obtain s2 where
    2: "run_cells (cells_before_invoke sample_validation sample_service) sample_state = Done s2"
    and l: "input_s3_location (vars s2) =
          ''s3://sagemaker-us-west-2-976939723775/huggingface/hf_hub/input.json''"
    by (elim exE conjE)
  from l have "input_s3_location (vars s2) \<noteq> []" by simp
  from sample_invoke_cell [OF this] obtain s3 where
    3: "invoke_cell sample_validation sample_service s2 = Done s3"
    "response (vars s3) = sample_reply" by blast
  from 3(2) obtain s4 where 4: "output_location_cell s3 = Done s4"
    by (simp add: output_location_cell_def subscript_def sample_reply_def)
  have "setup_cells sample_validation sample_service @
        use_cells sample_validation sample_service =
        cells_before_invoke sample_validation sample_service @
        [invoke_cell sample_validation sample_service, output_location_cell]"
    by (simp add: cells_before_invoke_def use_cells_def)
  with 2 3(1) 4 show ?thesis
    by (simp add: run_cells_append
        [of "cells_before_invoke sample_validation sample_service"])
qed

lemma sample_before_endpoint_name:
  "completed (run_cells (before_endpoint_name sample_validation sample_service) sample_state)"
  by (simp add: before_endpoint_name_def set_model_data_url_def set_model_name_def
      create_model_cell_def set_endpoint_config_name_def create_endpoint_config_cell_def
      set_endpoint_name_def sample_call sagemaker_client_def subscript_def assign_def store_def
      sample_reply_def sample_state_def sample_globals_def create_model_kwargs_def
      create_endpoint_config_kwargs_def)

lemma notebook_ends_in_clean_up:
  "notebook V R s =
     (case run_cells (setup_cells V R @ use_cells V R) s of
        Done s' \<Rightarrow> clean_up_cell V R s'
      | Raised e s' \<Rightarrow> Raised e s')"
proof -
  have "notebook V R s = run_cells ((setup_cells V R @ use_cells V R) @ [clean_up_cell V R]) s"
    by (simp add: notebook_def)
  also have "\<dots> = (case run_cells (setup_cells V R @ use_cells V R) s of
        Done s' \<Rightarrow> clean_up_cell V R s'
      | Raised e s' \<Rightarrow> Raised e s')"
    unfolding run_cells_append [of "setup_cells V R @ use_cells V R"]
    by (simp split: outcome.splits)
  finally show ?thesis .
qed

lemma notebook_at_invoke:
  "notebook V R =
     run_cells (cells_before_invoke V R @
                [invoke_cell V R, output_location_cell, clean_up_cell V R])"
  by (simp add: notebook_def cells_before_invoke_def use_cells_def)

section \<open>The claims\<close>

text \<open>
  Claim C1 (each step's request carries the identifier of the step before; the configuration
  name passed to \<open>create_endpoint\<close> is the one used in \<open>create_endpoint_config\<close>). The
  notebook does not do this. In the sample run, where every request passes the check of its
  arguments and is accepted, the
  configuration is created under the name \<open>beto-sentiment-analysis-async-1005\<close>, the value of
  \<open>endpoint_config_name\<close>, and the endpoint is created from the configuration named by the
  literal \<open>beto-sentiment-analysis-async\<close>: these are the only two requests of the run with
  those operations, and their \<open>EndpointConfigName\<close> arguments differ.
\<close>

theorem create_endpoint_config_name_mismatch:
  "map (\<lambda>c. (operation c, map_of (kwargs c) ''EndpointConfigName''))
     (filter (\<lambda>c. operation c = ''create_endpoint_config'' \<or> operation c = ''create_endpoint'')
        (sent sample_state (notebook sample_validation sample_service sample_state))) =
   [(''create_endpoint_config'', Some (PStr ''beto-sentiment-analysis-async-1005'')),
    (''create_endpoint'', Some (PStr ''beto-sentiment-analysis-async''))]"
proof -
  let ?Q = "\<lambda>c. operation c = ''describe_endpoint'' \<or> operation c = ''invoke_endpoint_async''"
  from sample_setup obtain s1 where
    s1: "run_cells (setup_cells sample_validation sample_service) sample_state = Done s1" and
    tr: "map fst (trace s1) = setup_requests sample_globals"
    by (elim exE conjE)
  let ?rest = "use_cells sample_validation sample_service @
               [clean_up_cell sample_validation sample_service]"
  have rest: "sends_only ?Q (run_cells ?rest)"
    by (rule sends_only_use) simp_all
  have nb: "notebook sample_validation sample_service sample_state = run_cells ?rest s1"
    using s1
    by (simp add: notebook_def
        run_cells_append [of "setup_cells sample_validation sample_service"])
  from rest obtain zs where zs:
    "trace (final (run_cells ?rest s1)) = trace s1 @ zs" "list_all ?Q (map fst zs)"
    unfolding sends_only_def by blast
  have "filter (\<lambda>c. operation c = ''create_endpoint_config'' \<or> operation c = ''create_endpoint'')
          (map fst zs) = []"
    using zs(2) by (auto simp: filter_empty_conv list_all_iff)
  moreover have "sent sample_state (notebook sample_validation sample_service sample_state) =
      map fst (trace s1) @ map fst zs"
    using zs(1) nb by (simp add: sent_def sample_state_def)
  ultimately show ?thesis
    by (simp add: tr setup_requests_def create_endpoint_config_kwargs_def
        create_endpoint_kwargs_def)
qed

text \<open>
  Claim C2, as amended: at clean-up the notebook does not delete the endpoint it created. No
  run, whatever the service answers and whatever the check of the arguments lets through,
  sends a \<open>delete_endpoint\<close> request.
\<close>

theorem notebook_never_deletes_endpoint:
  "''delete_endpoint'' \<notin> set (map operation (sent s (notebook V R s)))"
  using operations_sent [where s = s and V = V and R = R]
  by (auto simp: list_all_iff notebook_operation_def)

text \<open>
  Claim C2 as stated (every run that reaches the clean-up step sends \<open>delete_endpoint\<close> for
  the endpoint) fails on the sample run: all cells before the clean-up cell complete, and no
  \<open>delete_endpoint\<close> request is among the requests of the run.
\<close>

theorem no_delete_endpoint_counterexample:
  "completed (run_cells (setup_cells sample_validation sample_service @
                         use_cells sample_validation sample_service) sample_state) \<and>
   ''delete_endpoint'' \<notin>
     set (map operation
            (sent sample_state (notebook sample_validation sample_service sample_state)))"
proof -
  have "''delete_endpoint'' \<notin>
     set (map operation
            (sent sample_state (notebook sample_validation sample_service sample_state)))"
    using operations_sent
      [where s = sample_state and V = sample_validation and R = sample_service]
    by (auto simp: list_all_iff notebook_operation_def)
  with sample_before_clean_up show ?thesis by simp
qed

text \<open>
  Claim C8 (the invocation cell submits the same request 5000 times and keeps only the last
  response). Whatever the check of the arguments and the service answer, the requests of the
  cell are copies of one request, at most 5000 of them: \<open>invoke_endpoint_async\<close> on the
  runtime client with the endpoint name \<open>HuggingFaceAsyncEndpoint\<close>, the input location held
  by \<open>input_s3_location\<close> and the content type \<open>application/json\<close>. When the cell completes,
  there are exactly 5000, all accepted; the variables differ from those before the cell only
  in \<open>i\<close>, which is 4999, and in \<open>response\<close>, which is the answer to the last request; nothing
  was displayed; and the next cell reads \<open>OutputLocation\<close> from that last answer. The
  answers to the first 4999 requests are in no variable, and none of the 5000 answers is
  looked at inside the cell: when the request passes the check of its arguments and the
  service accepts it in every world, the cell completes, whatever the answers hold.
\<close>

theorem invoke_cell_same_request:
  "invoke_request (vars s) =
     \<lparr>receiver = Client ''sagemaker-runtime'', operation = ''invoke_endpoint_async'',
      kwargs = [(''EndpointName'', PStr ''HuggingFaceAsyncEndpoint''),
                (''InputLocation'', PStr (input_s3_location (vars s))),
                (''ContentType'', PStr ''application/json'')]\<rparr> \<and>
   (\<exists>as. length as \<le> 5000 \<and>
         trace (final (invoke_cell V R s)) = trace s @ map (Pair (invoke_request (vars s))) as) \<and>
   (\<forall>s'. invoke_cell V R s = Done s' \<longrightarrow>
      (\<exists>vs v. length vs = 4999 \<and>
         trace s' = trace s @ map (\<lambda>a. (invoke_request (vars s), Inr a)) (vs @ [v]) \<and>
         vars s' = (vars s)\<lparr>loop_i := 4999, response := v\<rparr> \<and>
         displayed s' = displayed s \<and>
         output_location_cell s' =
           (case getitem v ''OutputLocation'' of
              Inl e \<Rightarrow> Raised e s'
            | Inr l \<Rightarrow> Done (s'\<lparr>displayed := displayed s @ [l]\<rparr>)))) \<and>
   (V (invoke_request (vars s)) = None \<and>
    (\<forall>w. \<exists>v w'. R (invoke_request (vars s)) w = (Inr v, w')) \<longrightarrow>
      completed (invoke_cell V R s))"
proof (intro conjI allI impI)
  show "invoke_request (vars s) =
     \<lparr>receiver = Client ''sagemaker-runtime'', operation = ''invoke_endpoint_async'',
      kwargs = [(''EndpointName'', PStr ''HuggingFaceAsyncEndpoint''),
                (''InputLocation'', PStr (input_s3_location (vars s))),
                (''ContentType'', PStr ''application/json'')]\<rparr>"
    by (simp add: invoke_request_def invoke_kwargs_def sm_runtime_def)
  let ?s = "s\<lparr>vars := (vars s)\<lparr>loop_i := 0\<rparr>\<rparr>"
  have cell: "invoke_cell V R s = invoke_loop V R [0..<5000] ?s"
    by (simp add: invoke_cell_def assign_def split: outcome.splits)
  have rq: "invoke_request (vars ?s) = invoke_request (vars s)"
    by (simp add: invoke_request_def invoke_kwargs_def)
  from invoke_loop_prefix [where js = "[0..<5000]" and V = V and R = R and s = ?s] cell rq
  show "\<exists>as. length as \<le> 5000 \<and>
         trace (final (invoke_cell V R s)) = trace s @ map (Pair (invoke_request (vars s))) as"
    by simp
  show "completed (invoke_cell V R s)"
    if "V (invoke_request (vars s)) = None \<and>
        (\<forall>w. \<exists>v w'. R (invoke_request (vars s)) w = (Inr v, w'))"
  proof -
    from that rq have "V (invoke_request (vars ?s)) = None"
      and "\<forall>w. \<exists>v w'. R (invoke_request (vars ?s)) w = (Inr v, w')"
      by simp_all
    then have "completed (invoke_loop V R [0..<5000] ?s)"
      by (rule invoke_loop_completes)
    with cell show ?thesis by simp
  qed
  fix s'
  assume "invoke_cell V R s = Done s'"
  with cell have "invoke_loop V R [0..<5000] ?s = Done s'" by simp
  from invoke_loop_done [OF this] rq obtain ws where ws: "length ws = 5000"
    "trace s' = trace s @ map (\<lambda>v. (invoke_request (vars s), Inr v)) ws"
    "displayed s' = displayed s"
    "vars s' = (vars s)\<lparr>loop_i := 4999, response := last ws\<rparr>"
    by auto
  from ws(1) have ne: "ws \<noteq> []" by auto
  then have split: "ws = butlast ws @ [last ws]" by simp
  have len: "length (butlast ws) = 4999" using ws(1) by simp
  have out: "output_location_cell s' =
           (case getitem (last ws) ''OutputLocation'' of
              Inl e \<Rightarrow> Raised e s'
            | Inr l \<Rightarrow> Done (s'\<lparr>displayed := displayed s @ [l]\<rparr>))"
    by (simp add: output_location_cell_def subscript_def display_def ws(3,4) split: sum.splits)
  show "\<exists>vs v. length vs = 4999 \<and>
         trace s' = trace s @ map (\<lambda>a. (invoke_request (vars s), Inr a)) (vs @ [v]) \<and>
         vars s' = (vars s)\<lparr>loop_i := 4999, response := v\<rparr> \<and>
         displayed s' = displayed s \<and>
         output_location_cell s' =
           (case getitem v ''OutputLocation'' of
              Inl e \<Rightarrow> Raised e s'
            | Inr l \<Rightarrow> Done (s'\<lparr>displayed := displayed s @ [l]\<rparr>))"
  proof (intro exI [of _ "butlast ws"] exI [of _ "last ws"] conjI)
    show "trace s' =
          trace s @ map (\<lambda>a. (invoke_request (vars s), Inr a)) (butlast ws @ [last ws])"
      using ws(2) split by simp
  qed (fact len ws(3) ws(4) out)+
qed

text \<open>
  The sample run reaches the invocation cell, with the input location that the cell before
  assigned. In the state it arrives in, the request passes the check and the service accepts
  it in every world, so the cell completes; and what the statement says of a completed cell
  holds of it.
\<close>

theorem invoke_cell_same_request_witness:
  "notebook sample_validation sample_service =
     run_cells (cells_before_invoke sample_validation sample_service @
                [invoke_cell sample_validation sample_service, output_location_cell,
                 clean_up_cell sample_validation sample_service]) \<and>
   (\<exists>s s'.
      run_cells (cells_before_invoke sample_validation sample_service) sample_state = Done s \<and>
      input_s3_location (vars s) =
        ''s3://sagemaker-us-west-2-976939723775/huggingface/hf_hub/input.json'' \<and>
      sample_validation (invoke_request (vars s)) = None \<and>
      (\<forall>w. \<exists>v w'. sample_service (invoke_request (vars s)) w = (Inr v, w')) \<and>
      completed (invoke_cell sample_validation sample_service s) \<and>
      invoke_cell sample_validation sample_service s = Done s' \<and>
      (\<exists>vs v. length vs = 4999 \<and>
         trace s' = trace s @ map (\<lambda>a. (invoke_request (vars s), Inr a)) (vs @ [v]) \<and>
         vars s' = (vars s)\<lparr>loop_i := 4999, response := v\<rparr> \<and>
         displayed s' = displayed s \<and>
         output_location_cell s' =
           (case getitem v ''OutputLocation'' of
              Inl e \<Rightarrow> Raised e s'
            | Inr l \<Rightarrow> Done (s'\<lparr>displayed := displayed s @ [l]\<rparr>))))"
proof
  show "notebook sample_validation sample_service =
     run_cells (cells_before_invoke sample_validation sample_service @
                [invoke_cell sample_validation sample_service, output_location_cell,
                 clean_up_cell sample_validation sample_service])"
    by (rule notebook_at_invoke)
  from sample_before_invoke obtain s where
    r: "run_cells (cells_before_invoke sample_validation sample_service) sample_state = Done s"
    and l: "input_s3_location (vars s) =
        ''s3://sagemaker-us-west-2-976939723775/huggingface/hf_hub/input.json''"
    by (elim exE conjE)
  from l have v: "sample_validation (invoke_request (vars s)) = None"
    by (simp add: sample_validation_invoke)
  have a: "\<forall>w. \<exists>v w'. sample_service (invoke_request (vars s)) w = (Inr v, w')"
    by (simp add: sample_service_def)
  note inst = invoke_cell_same_request
    [where V = sample_validation and R = sample_service and s = s]
  from inst v a have c: "completed (invoke_cell sample_validation sample_service s)"
    by blast
  then obtain s' where d: "invoke_cell sample_validation sample_service s = Done s'"
    by (cases "invoke_cell sample_validation sample_service s") simp_all
  note inst [THEN conjunct2, THEN conjunct2, THEN conjunct1, rule_format, OF d]
  with r l v a c d
  show "\<exists>s s'.
      run_cells (cells_before_invoke sample_validation sample_service) sample_state = Done s \<and>
      input_s3_location (vars s) =
        ''s3://sagemaker-us-west-2-976939723775/huggingface/hf_hub/input.json'' \<and>
      sample_validation (invoke_request (vars s)) = None \<and>
      (\<forall>w. \<exists>v w'. sample_service (invoke_request (vars s)) w = (Inr v, w')) \<and>
      completed (invoke_cell sample_validation sample_service s) \<and>
      invoke_cell sample_validation sample_service s = Done s' \<and>
      (\<exists>vs v. length vs = 4999 \<and>
         trace s' = trace s @ map (\<lambda>a. (invoke_request (vars s), Inr a)) (vs @ [v]) \<and>
         vars s' = (vars s)\<lparr>loop_i := 4999, response := v\<rparr> \<and>
         displayed s' = displayed s \<and>
         output_location_cell s' =
           (case getitem v ''OutputLocation'' of
              Inl e \<Rightarrow> Raised e s'
            | Inr l \<Rightarrow> Done (s'\<lparr>displayed := displayed s @ [l]\<rparr>)))"
    by (intro exI [of _ s] exI [of _ s'] conjI)
qed

text \<open>
  Claim C9 (the clean-up cell fails before it sends anything). For every service, every
  check of the arguments and every state, the cell raises AttributeError with the message of the recorded traceback,
  \<^verbatim>\<open>'SageMaker' object has no attribute 'deregister_scalable_target'\<close>, and leaves the
  state as it was, so nothing is sent and the world of the service is untouched. No run of
  the notebook ends normally, none sends a \<open>deregister_scalable_target\<close> request, and a run
  whose cells before the clean-up complete ends with that exception in the state those
  cells left.
\<close>

theorem clean_up_raises_attribute_error:
  "clean_up_cell V R s =
     Raised (AttributeError (quoted ''SageMaker'' @ '' object has no attribute '' @
                             quoted ''deregister_scalable_target'')) s \<and>
   \<not> completed (notebook V R s) \<and>
   ''deregister_scalable_target'' \<notin> set (map operation (sent s (notebook V R s))) \<and>
   (\<forall>s'. run_cells (setup_cells V R @ use_cells V R) s = Done s' \<longrightarrow>
      notebook V R s =
        Raised (AttributeError (quoted ''SageMaker'' @ '' object has no attribute '' @
                                quoted ''deregister_scalable_target'')) s')"
proof (intro conjI allI impI)
  show "clean_up_cell V R s =
     Raised (AttributeError (quoted ''SageMaker'' @ '' object has no attribute '' @
                             quoted ''deregister_scalable_target'')) s"
    by (rule clean_up_raises)
  show "\<not> completed (notebook V R s)"
    by (simp add: notebook_ends_in_clean_up clean_up_raises split: outcome.splits)
  show "''deregister_scalable_target'' \<notin> set (map operation (sent s (notebook V R s)))"
    using operations_sent [where s = s and V = V and R = R] by (auto simp: list_all_iff notebook_operation_def)
  show "notebook V R s =
        Raised (AttributeError (quoted ''SageMaker'' @ '' object has no attribute '' @
                                quoted ''deregister_scalable_target'')) s'"
    if "run_cells (setup_cells V R @ use_cells V R) s = Done s'" for s'
    using that by (simp add: notebook_ends_in_clean_up clean_up_raises)
qed

text \<open>
  The sample run completes every cell before the clean-up; it ends in the state those cells
  left, and not normally.
\<close>

theorem clean_up_raises_attribute_error_witness:
  "completed (run_cells (setup_cells sample_validation sample_service @
                         use_cells sample_validation sample_service) sample_state) \<and>
   final (notebook sample_validation sample_service sample_state) =
     final (run_cells (setup_cells sample_validation sample_service @
                       use_cells sample_validation sample_service) sample_state) \<and>
   \<not> completed (notebook sample_validation sample_service sample_state)"
proof -
  from sample_before_clean_up obtain s' where
    d: "run_cells (setup_cells sample_validation sample_service @
                   use_cells sample_validation sample_service) sample_state = Done s'"
    by (cases "run_cells (setup_cells sample_validation sample_service @
                          use_cells sample_validation sample_service) sample_state")
      simp_all
  from clean_up_raises_attribute_error [where V = sample_validation and R = sample_service and s = sample_state] d
  have "notebook sample_validation sample_service sample_state =
        Raised (AttributeError (quoted ''SageMaker'' @ '' object has no attribute '' @
                                quoted ''deregister_scalable_target'')) s'"
    by blast
  with d show ?thesis by simp
qed

text \<open>
  Claim C10 (everything after the creation of the endpoint uses the literal name passed to
  \<open>create_endpoint\<close>; the variable \<open>endpoint_name\<close> is never used). Every request sent after
  the assignment \<open>endpoint_name = model_name\<close> is a \<open>create_endpoint\<close>, \<open>wait\<close>,
  \<open>describe_endpoint\<close> or \<open>invoke_endpoint_async\<close> request whose \<open>EndpointName\<close> is
  \<open>HuggingFaceAsyncEndpoint\<close>. The statements after the assignment do not read the variable:
  run with another value in it, they end in the same way, in the same state but for that
  value. These statements are the rest of the notebook; and when the statements before them
  complete, the variable holds \<open>beto-sentiment-analysis-async-1005\<close>.
\<close>

theorem endpoint_name_literal:
  "list_all names_endpoint (sent s (run_cells (after_endpoint_name V R) s)) \<and>
   run_cells (after_endpoint_name V R) (rebind_endpoint_name x s) =
     on_final (rebind_endpoint_name x) (run_cells (after_endpoint_name V R) s) \<and>
   notebook V R = run_cells (before_endpoint_name V R @ after_endpoint_name V R) \<and>
   (\<forall>s'. run_cells (before_endpoint_name V R) s = Done s' \<longrightarrow>
      endpoint_name (vars s') = ''beto-sentiment-analysis-async-1005'')"
proof (intro conjI allI impI)
  show "list_all names_endpoint (sent s (run_cells (after_endpoint_name V R) s))"
    by (rule sends_only_sent) (rule sends_only_after)
  show "run_cells (after_endpoint_name V R) (rebind_endpoint_name x s) =
     on_final (rebind_endpoint_name x) (run_cells (after_endpoint_name V R) s)"
    using ignores_after [where V = V and R = R] by (simp add: ignores_endpoint_name_def)
  show "notebook V R = run_cells (before_endpoint_name V R @ after_endpoint_name V R)"
    by (rule notebook_split)
  show "endpoint_name (vars s') = ''beto-sentiment-analysis-async-1005''"
    if "run_cells (before_endpoint_name V R) s = Done s'" for s'
    using that by (rule before_endpoint_name_done)
qed

text \<open>
  In the sample run the statements up to the assignment complete, the variable then holds
  that name, and the requests after it name the endpoint by the literal.
\<close>

theorem endpoint_name_literal_witness:
  "\<exists>s'. run_cells (before_endpoint_name sample_validation sample_service) sample_state =
          Done s' \<and>
        endpoint_name (vars s') = ''beto-sentiment-analysis-async-1005'' \<and>
        list_all names_endpoint
          (sent s' (run_cells (after_endpoint_name sample_validation sample_service) s'))"
proof -
  from sample_before_endpoint_name obtain s' where
    d: "run_cells (before_endpoint_name sample_validation sample_service) sample_state =
        Done s'"
    by (cases "run_cells (before_endpoint_name sample_validation sample_service) sample_state")
      simp_all
  from endpoint_name_literal [where V = sample_validation and R = sample_service and s = sample_state] d
  have "endpoint_name (vars s') = ''beto-sentiment-analysis-async-1005''" by simp
  moreover from endpoint_name_literal [where V = sample_validation and R = sample_service and s = s']
  have "list_all names_endpoint
          (sent s' (run_cells (after_endpoint_name sample_validation sample_service) s'))"
    by simp
  ultimately show ?thesis using d by (intro exI [of _ s']) simp
qed

end
